theory Spec2Isabelle
  imports Main "HOL-Library.Word"
begin

unbundle bit_operations_syntax

section \<open>Machine integers, the receive buffer and byte order\<close>

type_synonym u8 = "8 word"
type_synonym u16 = "16 word"
type_synonym u32 = "32 word"

text \<open>\<^verbatim>\<open>#define BUF_SIZE 65536\<close>\<close>

definition BUF_SIZE :: nat where
  "BUF_SIZE = 65536"

text \<open>
  \<^verbatim>\<open>unsigned char *buffer = malloc(BUF_SIZE)\<close>: the one block of bytes every pass of the
  loop reuses, as a store from byte offset to byte. Only the offsets below \<open>BUF_SIZE\<close>
  belong to the block; the decoders read no offset beyond 93 (lemma
  \<open>tcp_offset_bounds\<close> below: the TCP structure starts at 74 at most and has 20 bytes).
\<close>

type_synonym buffer = "nat \<Rightarrow> u8"

text \<open>
  The program is compiled for a host of either byte order; the headers of the C library
  (\<^verbatim>\<open>ntohs\<close>, \<^verbatim>\<open>ntohl\<close>, the bit-field order of \<^verbatim>\<open>struct iphdr\<close> and
  \<^verbatim>\<open>struct tcphdr\<close>) depend on it, so it is a parameter of the model.
\<close>

datatype endian = LittleEndian | BigEndian

text \<open>Reading a 16-bit or 32-bit struct member from memory, in the byte order of the host.\<close>

definition load_u16 :: "endian \<Rightarrow> buffer \<Rightarrow> nat \<Rightarrow> u16" where
  "load_u16 e buf p =
     (case e of
        LittleEndian \<Rightarrow> ucast (buf p) OR push_bit 8 (ucast (buf (p + 1)))
      | BigEndian \<Rightarrow> push_bit 8 (ucast (buf p)) OR ucast (buf (p + 1)))"

definition load_u32 :: "endian \<Rightarrow> buffer \<Rightarrow> nat \<Rightarrow> u32" where
  "load_u32 e buf p =
     (case e of
        LittleEndian \<Rightarrow>
          ucast (buf p) OR push_bit 8 (ucast (buf (p + 1)))
            OR push_bit 16 (ucast (buf (p + 2))) OR push_bit 24 (ucast (buf (p + 3)))
      | BigEndian \<Rightarrow>
          push_bit 24 (ucast (buf p)) OR push_bit 16 (ucast (buf (p + 1)))
            OR push_bit 8 (ucast (buf (p + 2))) OR ucast (buf (p + 3)))"

text \<open>The value a 16-bit or 32-bit field has on the wire: most significant byte first.\<close>

definition be16 :: "buffer \<Rightarrow> nat \<Rightarrow> nat" where
  "be16 buf p = 256 * unat (buf p) + unat (buf (p + 1))"

definition be32 :: "buffer \<Rightarrow> nat \<Rightarrow> nat" where
  "be32 buf p =
     16777216 * unat (buf p) + 65536 * unat (buf (p + 1))
       + 256 * unat (buf (p + 2)) + unat (buf (p + 3))"

text \<open>
  \<^verbatim>\<open>ntohs\<close> and \<^verbatim>\<open>ntohl\<close> of \<^verbatim>\<open><arpa/inet.h>\<close>: a byte swap on a little-endian host,
  the identity on a big-endian one.
\<close>

definition bswap_16 :: "u16 \<Rightarrow> u16" where
  "bswap_16 x = push_bit 8 (x AND 0xFF) OR drop_bit 8 x"

definition bswap_32 :: "u32 \<Rightarrow> u32" where
  "bswap_32 x =
     push_bit 24 (x AND 0xFF) OR push_bit 16 (drop_bit 8 x AND 0xFF)
       OR push_bit 8 (drop_bit 16 x AND 0xFF) OR drop_bit 24 x"

definition ntohs :: "endian \<Rightarrow> u16 \<Rightarrow> u16" where
  "ntohs e x = (case e of LittleEndian \<Rightarrow> bswap_16 x | BigEndian \<Rightarrow> x)"

definition ntohl :: "endian \<Rightarrow> u32 \<Rightarrow> u32" where
  "ntohl e x = (case e of LittleEndian \<Rightarrow> bswap_32 x | BigEndian \<Rightarrow> x)"

text \<open>
  \<^verbatim>\<open>inet_ntoa\<close> of \<^verbatim>\<open><arpa/inet.h>\<close> renders the four bytes of an address, held in
  network byte order, as a dotted quad; the model returns the four numbers in the order
  in which they are printed, which is the order of the bytes of the value in memory.
\<close>

definition inet_ntoa :: "endian \<Rightarrow> u32 \<Rightarrow> nat list" where
  "inet_ntoa e x =
     (case e of
        LittleEndian \<Rightarrow>
          [unat (x AND 0xFF), unat (drop_bit 8 x AND 0xFF),
           unat (drop_bit 16 x AND 0xFF), unat (drop_bit 24 x)]
      | BigEndian \<Rightarrow>
          [unat (drop_bit 24 x), unat (drop_bit 16 x AND 0xFF),
           unat (drop_bit 8 x AND 0xFF), unat (x AND 0xFF)])"

section \<open>The header structures of the C library\<close>

text \<open>
  \<^verbatim>\<open>struct ethhdr\<close> (\<^verbatim>\<open><linux/if_ether.h>\<close>, 14 bytes): \<^verbatim>\<open>h_dest[6]\<close> at offset 0,
  \<^verbatim>\<open>h_source[6]\<close> at 6, \<^verbatim>\<open>h_proto\<close> (16 bits) at 12. Each member is read through
  a pointer \<open>p\<close> into the buffer.
\<close>

definition sizeof_ethhdr :: nat where
  "sizeof_ethhdr = 14"

definition h_dest :: "buffer \<Rightarrow> nat \<Rightarrow> nat \<Rightarrow> u8" where
  "h_dest buf p k = buf (p + k)"

definition h_source :: "buffer \<Rightarrow> nat \<Rightarrow> nat \<Rightarrow> u8" where
  "h_source buf p k = buf (p + 6 + k)"

definition h_proto :: "endian \<Rightarrow> buffer \<Rightarrow> nat \<Rightarrow> u16" where
  "h_proto e buf p = load_u16 e buf (p + 12)"

text \<open>
  \<^verbatim>\<open>struct iphdr\<close> (\<^verbatim>\<open><netinet/ip.h>\<close>, 20 bytes). The first byte holds two bit-fields,
  declared \<^verbatim>\<open>ihl:4, version:4\<close> on a little-endian host and \<^verbatim>\<open>version:4, ihl:4\<close> on a
  big-endian one, so that on both \<^verbatim>\<open>ihl\<close> is the low nibble and \<^verbatim>\<open>version\<close> the high
  nibble. Then \<^verbatim>\<open>tos\<close> at 1, \<^verbatim>\<open>tot_len\<close> at 2, \<^verbatim>\<open>id\<close> at 4, \<^verbatim>\<open>frag_off\<close> at 6,
  \<^verbatim>\<open>ttl\<close> at 8, \<^verbatim>\<open>protocol\<close> at 9, \<^verbatim>\<open>check\<close> at 10, \<^verbatim>\<open>saddr\<close> at 12 and
  \<^verbatim>\<open>daddr\<close> at 16.
\<close>

definition iph_ihl :: "buffer \<Rightarrow> nat \<Rightarrow> u8" where
  "iph_ihl buf p = buf p AND 0x0F"

definition iph_version :: "buffer \<Rightarrow> nat \<Rightarrow> u8" where
  "iph_version buf p = drop_bit 4 (buf p)"

definition iph_tos :: "buffer \<Rightarrow> nat \<Rightarrow> u8" where
  "iph_tos buf p = buf (p + 1)"

definition iph_tot_len :: "endian \<Rightarrow> buffer \<Rightarrow> nat \<Rightarrow> u16" where
  "iph_tot_len e buf p = load_u16 e buf (p + 2)"

definition iph_id :: "endian \<Rightarrow> buffer \<Rightarrow> nat \<Rightarrow> u16" where
  "iph_id e buf p = load_u16 e buf (p + 4)"

definition iph_ttl :: "buffer \<Rightarrow> nat \<Rightarrow> u8" where
  "iph_ttl buf p = buf (p + 8)"

definition iph_protocol :: "buffer \<Rightarrow> nat \<Rightarrow> u8" where
  "iph_protocol buf p = buf (p + 9)"

definition iph_check :: "endian \<Rightarrow> buffer \<Rightarrow> nat \<Rightarrow> u16" where
  "iph_check e buf p = load_u16 e buf (p + 10)"

definition iph_saddr :: "endian \<Rightarrow> buffer \<Rightarrow> nat \<Rightarrow> u32" where
  "iph_saddr e buf p = load_u32 e buf (p + 12)"

definition iph_daddr :: "endian \<Rightarrow> buffer \<Rightarrow> nat \<Rightarrow> u32" where
  "iph_daddr e buf p = load_u32 e buf (p + 16)"

text \<open>
  \<^verbatim>\<open>struct tcphdr\<close> (\<^verbatim>\<open><netinet/tcp.h>\<close>, 20 bytes): \<^verbatim>\<open>source\<close> at 0, \<^verbatim>\<open>dest\<close> at 2,
  \<^verbatim>\<open>seq\<close> at 4, \<^verbatim>\<open>ack_seq\<close> at 8, then the bit-fields: \<^verbatim>\<open>doff\<close> is the high nibble
  of byte 12, and byte 13 holds \<^verbatim>\<open>fin\<close> (bit 0), \<^verbatim>\<open>syn\<close> (bit 1), \<^verbatim>\<open>rst\<close> (bit 2),
  \<^verbatim>\<open>psh\<close> (bit 3), \<^verbatim>\<open>ack\<close> (bit 4) and \<^verbatim>\<open>urg\<close> (bit 5) on a host of either byte
  order; \<^verbatim>\<open>window\<close> at 14, \<^verbatim>\<open>check\<close> at 16, \<^verbatim>\<open>urg_ptr\<close> at 18.
\<close>

definition tcph_source :: "endian \<Rightarrow> buffer \<Rightarrow> nat \<Rightarrow> u16" where
  "tcph_source e buf p = load_u16 e buf p"

definition tcph_dest :: "endian \<Rightarrow> buffer \<Rightarrow> nat \<Rightarrow> u16" where
  "tcph_dest e buf p = load_u16 e buf (p + 2)"

definition tcph_seq :: "endian \<Rightarrow> buffer \<Rightarrow> nat \<Rightarrow> u32" where
  "tcph_seq e buf p = load_u32 e buf (p + 4)"

definition tcph_ack_seq :: "endian \<Rightarrow> buffer \<Rightarrow> nat \<Rightarrow> u32" where
  "tcph_ack_seq e buf p = load_u32 e buf (p + 8)"

definition tcph_doff :: "buffer \<Rightarrow> nat \<Rightarrow> u8" where
  "tcph_doff buf p = drop_bit 4 (buf (p + 12))"

definition tcph_fin :: "buffer \<Rightarrow> nat \<Rightarrow> u8" where
  "tcph_fin buf p = buf (p + 13) AND 1"

definition tcph_syn :: "buffer \<Rightarrow> nat \<Rightarrow> u8" where
  "tcph_syn buf p = drop_bit 1 (buf (p + 13)) AND 1"

definition tcph_rst :: "buffer \<Rightarrow> nat \<Rightarrow> u8" where
  "tcph_rst buf p = drop_bit 2 (buf (p + 13)) AND 1"

definition tcph_psh :: "buffer \<Rightarrow> nat \<Rightarrow> u8" where
  "tcph_psh buf p = drop_bit 3 (buf (p + 13)) AND 1"

definition tcph_ack :: "buffer \<Rightarrow> nat \<Rightarrow> u8" where
  "tcph_ack buf p = drop_bit 4 (buf (p + 13)) AND 1"

definition tcph_urg :: "buffer \<Rightarrow> nat \<Rightarrow> u8" where
  "tcph_urg buf p = drop_bit 5 (buf (p + 13)) AND 1"

definition tcph_window :: "endian \<Rightarrow> buffer \<Rightarrow> nat \<Rightarrow> u16" where
  "tcph_window e buf p = load_u16 e buf (p + 14)"

definition tcph_check :: "endian \<Rightarrow> buffer \<Rightarrow> nat \<Rightarrow> u16" where
  "tcph_check e buf p = load_u16 e buf (p + 16)"

definition tcph_urg_ptr :: "endian \<Rightarrow> buffer \<Rightarrow> nat \<Rightarrow> u16" where
  "tcph_urg_ptr e buf p = load_u16 e buf (p + 18)"

section \<open>What the program prints\<close>

text \<open>
  Each \<^verbatim>\<open>print_\<close> function writes one block of labelled lines to standard output. A
  block is modelled by the numbers handed to \<^verbatim>\<open>printf\<close>, one record field per
  conversion, in the order of the source; the fixed text and the number formatting are
  left out.
\<close>

record ethernet_block =
  eth_destination :: "nat list"
  eth_source :: "nat list"
  eth_protocol :: nat

record ip_block =
  ip_version :: nat
  ip_header_dwords :: nat
  ip_header_bytes :: nat
  ip_type_of_service :: nat
  ip_total_length :: nat
  ip_identification :: nat
  ip_ttl :: nat
  ip_protocol :: nat
  ip_checksum :: nat
  ip_source :: "nat list"
  ip_destination :: "nat list"

record tcp_block =
  tcp_source_port :: nat
  tcp_destination_port :: nat
  tcp_sequence_number :: nat
  tcp_acknowledge_number :: nat
  tcp_header_dwords :: nat
  tcp_header_bytes :: nat
  tcp_urgent_flag :: nat
  tcp_acknowledgement_flag :: nat
  tcp_push_flag :: nat
  tcp_reset_flag :: nat
  tcp_synchronise_flag :: nat
  tcp_finish_flag :: nat
  tcp_window :: nat
  tcp_checksum :: nat
  tcp_urgent_pointer :: nat

datatype block =
    Ethernet_Header ethernet_block
  | IP_Header ip_block
  | TCP_Header tcp_block

text \<open>
  The state of the process as far as the loop touches it: the buffer, and what has been
  written to standard output and to standard error so far.
\<close>

record state =
  buffer :: buffer
  stdout :: "block list"
  stderr :: "string list"

section \<open>The three decoders\<close>

text \<open>
  \<^verbatim>\<open>print_ethernet_header\<close>: the structure is laid over the start of the buffer;
  \<^verbatim>\<open>h_proto\<close> is printed as it is read, with no \<^verbatim>\<open>ntohs\<close>.
\<close>

definition ethernet_fields :: "endian \<Rightarrow> buffer \<Rightarrow> ethernet_block" where
  "ethernet_fields e buf =
     (let eth = 0 in
      \<lparr>eth_destination = map (\<lambda>k. unat (h_dest buf eth k)) [0, 1, 2, 3, 4, 5],
       eth_source = map (\<lambda>k. unat (h_source buf eth k)) [0, 1, 2, 3, 4, 5],
       eth_protocol = unat (h_proto e buf eth)\<rparr>)"

definition print_ethernet_header :: "endian \<Rightarrow> state \<Rightarrow> state" where
  "print_ethernet_header e s =
     s\<lparr>stdout := stdout s @ [Ethernet_Header (ethernet_fields e (buffer s))]\<rparr>"

text \<open>
  \<^verbatim>\<open>print_ip_header\<close>: the structure is laid over the buffer at
  \<^verbatim>\<open>buffer + sizeof(struct ethhdr)\<close>, whatever the Ethernet header says.
\<close>

definition ip_fields :: "endian \<Rightarrow> buffer \<Rightarrow> ip_block" where
  "ip_fields e buf =
     (let ip = sizeof_ethhdr in
      \<lparr>ip_version = unat (iph_version buf ip),
       ip_header_dwords = unat (iph_ihl buf ip),
       ip_header_bytes = unat ((ucast (iph_ihl buf ip) :: u32) * 4),
       ip_type_of_service = unat (iph_tos buf ip),
       ip_total_length = unat (ntohs e (iph_tot_len e buf ip)),
       ip_identification = unat (ntohs e (iph_id e buf ip)),
       ip_ttl = unat (iph_ttl buf ip),
       ip_protocol = unat (iph_protocol buf ip),
       ip_checksum = unat (ntohs e (iph_check e buf ip)),
       ip_source = inet_ntoa e (iph_saddr e buf ip),
       ip_destination = inet_ntoa e (iph_daddr e buf ip)\<rparr>)"

definition print_ip_header :: "endian \<Rightarrow> state \<Rightarrow> state" where
  "print_ip_header e s =
     s\<lparr>stdout := stdout s @ [IP_Header (ip_fields e (buffer s))]\<rparr>"

text \<open>
  \<^verbatim>\<open>print_tcp_packet\<close>: the TCP structure is laid over the buffer at
  \<^verbatim>\<open>buffer + ip->ihl * 4 + sizeof(struct ethhdr)\<close>; \<^verbatim>\<open>urg_ptr\<close> is printed as it is
  read, with no \<^verbatim>\<open>ntohs\<close>.
\<close>

definition tcp_offset :: "buffer \<Rightarrow> nat" where
  "tcp_offset buf =
     (let ip = sizeof_ethhdr in unat (iph_ihl buf ip) * 4 + sizeof_ethhdr)"

definition tcp_fields :: "endian \<Rightarrow> buffer \<Rightarrow> tcp_block" where
  "tcp_fields e buf =
     (let tcp = tcp_offset buf in
      \<lparr>tcp_source_port = unat (ntohs e (tcph_source e buf tcp)),
       tcp_destination_port = unat (ntohs e (tcph_dest e buf tcp)),
       tcp_sequence_number = unat (ntohl e (tcph_seq e buf tcp)),
       tcp_acknowledge_number = unat (ntohl e (tcph_ack_seq e buf tcp)),
       tcp_header_dwords = unat (tcph_doff buf tcp),
       tcp_header_bytes = unat ((ucast (tcph_doff buf tcp) :: u32) * 4),
       tcp_urgent_flag = unat (tcph_urg buf tcp),
       tcp_acknowledgement_flag = unat (tcph_ack buf tcp),
       tcp_push_flag = unat (tcph_psh buf tcp),
       tcp_reset_flag = unat (tcph_rst buf tcp),
       tcp_synchronise_flag = unat (tcph_syn buf tcp),
       tcp_finish_flag = unat (tcph_fin buf tcp),
       tcp_window = unat (ntohs e (tcph_window e buf tcp)),
       tcp_checksum = unat (ntohs e (tcph_check e buf tcp)),
       tcp_urgent_pointer = unat (tcph_urg_ptr e buf tcp)\<rparr>)"

definition print_tcp_packet :: "endian \<Rightarrow> state \<Rightarrow> state" where
  "print_tcp_packet e s =
     s\<lparr>stdout := stdout s @ [TCP_Header (tcp_fields e (buffer s))]\<rparr>"

section \<open>The capture loop\<close>

text \<open>
  What one call of \<^verbatim>\<open>recvfrom\<close> on the raw socket can deliver: a frame, or a failure
  with its \<^verbatim>\<open>errno\<close>. A frame longer than the buffer is cut to \<open>BUF_SIZE\<close> bytes; the
  bytes received overwrite the start of the buffer and the rest of the buffer keeps what
  it held. A failure returns \<open>-1\<close> and leaves the buffer alone.
\<close>

datatype sock_event = Received "u8 list" | Failed int

definition write_bytes :: "buffer \<Rightarrow> u8 list \<Rightarrow> buffer" where
  "write_bytes buf bs = (\<lambda>i. if i < length bs then bs ! i else buf i)"

definition recvfrom :: "sock_event \<Rightarrow> buffer \<Rightarrow> int \<times> buffer" where
  "recvfrom ev buf =
     (case ev of
        Received frame \<Rightarrow>
          (int (length (take BUF_SIZE frame)), write_bytes buf (take BUF_SIZE frame))
      | Failed errno \<Rightarrow> (- 1, buf))"

text \<open>
  The body of \<^verbatim>\<open>while (1)\<close>: \<open>Some r\<close> is \<^verbatim>\<open>return r\<close>, \<open>None\<close> is falling through
  to the next pass.
\<close>

definition loop_body :: "endian \<Rightarrow> state \<Rightarrow> sock_event \<Rightarrow> int option \<times> state" where
  "loop_body e s ev =
     (case recvfrom ev (buffer s) of
        (msg_len, buf) \<Rightarrow>
          if msg_len < 0
          then (Some (- 1),
                s\<lparr>buffer := buf,
                  stderr := stderr s @ [''No data received due to error'' @ [CHR 0x0A]]\<rparr>)
          else (None,
                print_tcp_packet e
                  (print_ip_header e (print_ethernet_header e (s\<lparr>buffer := buf\<rparr>)))))"

text \<open>
  The loop runs over the events the socket delivers. It has no exit of its own: when the
  events run out the process is blocked in \<^verbatim>\<open>recvfrom\<close>.
\<close>

datatype outcome = Exited int state | Returned int state | Blocked state

fun capture_loop :: "endian \<Rightarrow> state \<Rightarrow> sock_event list \<Rightarrow> outcome" where
  "capture_loop e s [] = Blocked s"
| "capture_loop e s (ev # evs) =
     (case loop_body e s ev of
        (Some r, s') \<Rightarrow> Returned r s'
      | (None, s') \<Rightarrow> capture_loop e s' evs)"

text \<open>
  \<^verbatim>\<open>main\<close>: \<open>raw_socket\<close> is what \<^verbatim>\<open>socket\<close> returned, \<open>buf0\<close> what the block
  returned by \<^verbatim>\<open>malloc\<close> happens to hold (the allocation is taken to succeed; the
  program does not test it). \<^verbatim>\<open>exit(EXIT_FAILURE)\<close> is \<open>Exited 1\<close>.
\<close>

definition main :: "endian \<Rightarrow> int \<Rightarrow> buffer \<Rightarrow> sock_event list \<Rightarrow> outcome" where
  "main e raw_socket buf0 evs =
     (if raw_socket < 0
      then Exited 1
             \<lparr>buffer = buf0, stdout = [],
              stderr = [''Failed to create raw socket'' @ [CHR 0x0A]]\<rparr>
      else capture_loop e \<lparr>buffer = buf0, stdout = [], stderr = []\<rparr> evs)"

fun final_state :: "outcome \<Rightarrow> state" where
  "final_state (Exited r s) = s"
| "final_state (Returned r s) = s"
| "final_state (Blocked s) = s"

text \<open>What the process hands back, if anything: \<open>None\<close> while it is blocked.\<close>

fun exit_status :: "outcome \<Rightarrow> int option" where
  "exit_status (Exited r s) = Some r"
| "exit_status (Returned r s) = Some r"
| "exit_status (Blocked s) = None"

section \<open>Frames used as concrete inputs\<close>

text \<open>A freshly allocated buffer that happens to hold zeros.\<close>

definition zeroed :: buffer where
  "zeroed i = 0"

text \<open>
  54 bytes: Ethernet (ether-type \<open>08 00\<close>), IPv4 (\<open>45\<close>: version 4, \<open>IHL = 5\<close>;
  protocol 6; 192.168.0.1 to 192.168.0.199), TCP from port 12345 to port 80 with
  \<open>50 02\<close>: \<open>DOFF = 5\<close>, SYN only.
\<close>

definition syn_frame :: "u8 list" where
  "syn_frame =
     [0x00, 0x1A, 0x2B, 0x3C, 0x4D, 0x5E, 0x00, 0x11, 0x22, 0x33, 0x44, 0x55, 0x08, 0x00,
      0x45, 0x00, 0x00, 0x28, 0x1C, 0x46, 0x40, 0x00, 0x40, 0x06, 0xB1, 0xE6,
      0xC0, 0xA8, 0x00, 0x01, 0xC0, 0xA8, 0x00, 0xC7,
      0x30, 0x39, 0x00, 0x50, 0x00, 0x00, 0x00, 0x01, 0x00, 0x00, 0x00, 0x00,
      0x50, 0x02, 0x72, 0x10, 0x1E, 0x2B, 0x00, 0x00]"

text \<open>
  The same headers, to port 23, with \<open>50 30\<close> (URG and ACK set) and the urgent pointer
  \<open>00 01\<close> in the last two bytes.
\<close>

definition urgent_frame :: "u8 list" where
  "urgent_frame =
     [0x00, 0x1A, 0x2B, 0x3C, 0x4D, 0x5E, 0x00, 0x11, 0x22, 0x33, 0x44, 0x55, 0x08, 0x00,
      0x45, 0x00, 0x00, 0x28, 0x1C, 0x46, 0x40, 0x00, 0x40, 0x06, 0xB1, 0xE6,
      0xC0, 0xA8, 0x00, 0x01, 0xC0, 0xA8, 0x00, 0xC7,
      0x30, 0x39, 0x00, 0x17, 0x00, 0x00, 0x00, 0x01, 0x00, 0x00, 0x00, 0x02,
      0x50, 0x30, 0x72, 0x10, 0x1E, 0x2B, 0x00, 0x01]"

text \<open>13 bytes: the two addresses and the first byte of the ether-type.\<close>

definition short_frame :: "u8 list" where
  "short_frame =
     [0xFF, 0xFF, 0xFF, 0xFF, 0xFF, 0xFF, 0x00, 0x11, 0x22, 0x33, 0x44, 0x55, 0x08]"

text \<open>
  74 bytes: Ethernet, then an IPv4 header of 60 bytes (\<open>4F\<close>: \<open>IHL = 15\<close>, 40 bytes of
  options) with protocol \<open>11\<close> (17, UDP), and nothing after it.
\<close>

definition udp_frame :: "u8 list" where
  "udp_frame =
     [0x00, 0x1A, 0x2B, 0x3C, 0x4D, 0x5E, 0x00, 0x11, 0x22, 0x33, 0x44, 0x55, 0x08, 0x00,
      0x4F, 0x00, 0x00, 0x3C, 0x1C, 0x46, 0x40, 0x00, 0x40, 0x11, 0xB1, 0xE6,
      0xC0, 0xA8, 0x00, 0x01, 0xC0, 0xA8, 0x00, 0xC7,
      0x01, 0x01, 0x01, 0x01, 0x01, 0x01, 0x01, 0x01, 0x01, 0x01,
      0x01, 0x01, 0x01, 0x01, 0x01, 0x01, 0x01, 0x01, 0x01, 0x01,
      0x01, 0x01, 0x01, 0x01, 0x01, 0x01, 0x01, 0x01, 0x01, 0x01,
      0x01, 0x01, 0x01, 0x01, 0x01, 0x01, 0x01, 0x01, 0x01, 0x00]"

text \<open>The SYN frame with \<open>40\<close> at offset 14: version 4, \<open>IHL = 0\<close>.\<close>

definition ihl0_frame :: "u8 list" where
  "ihl0_frame =
     [0x00, 0x1A, 0x2B, 0x3C, 0x4D, 0x5E, 0x00, 0x11, 0x22, 0x33, 0x44, 0x55, 0x08, 0x00,
      0x40, 0x00, 0x00, 0x28, 0x1C, 0x46, 0x40, 0x00, 0x40, 0x06, 0xB1, 0xE6,
      0xC0, 0xA8, 0x00, 0x01, 0xC0, 0xA8, 0x00, 0xC7,
      0x30, 0x39, 0x00, 0x50, 0x00, 0x00, 0x00, 0x01, 0x00, 0x00, 0x00, 0x00,
      0x50, 0x02, 0x72, 0x10, 0x1E, 0x2B, 0x00, 0x00]"

text \<open>
  62 bytes: Ethernet, an IPv4 header of 24 bytes (\<open>46\<close>: \<open>IHL = 6\<close>, one option word),
  then at offset 38 a TCP header of 24 bytes from port 80 (\<open>00 50\<close>) to port 12345,
  with \<open>60 02\<close> at offsets 50 and 51: \<open>DOFF = 6\<close>, SYN only, one option word.
\<close>

definition options_frame :: "u8 list" where
  "options_frame =
     [0x00, 0x1A, 0x2B, 0x3C, 0x4D, 0x5E, 0x00, 0x11, 0x22, 0x33, 0x44, 0x55, 0x08, 0x00,
      0x46, 0x00, 0x00, 0x30, 0x1C, 0x46, 0x40, 0x00, 0x40, 0x06, 0xB1, 0xE6,
      0xC0, 0xA8, 0x00, 0x01, 0xC0, 0xA8, 0x00, 0xC7, 0x94, 0x04, 0x00, 0x00,
      0x00, 0x50, 0x30, 0x39, 0x00, 0x00, 0x00, 0x01, 0x00, 0x00, 0x00, 0x00,
      0x60, 0x02, 0x72, 0x10, 0x1E, 0x2B, 0x00, 0x00, 0x02, 0x04, 0x05, 0xB4]"

section \<open>Byte order: what the conversions compute\<close>

lemma u8_bound: "unat (a::u8) < 256"
  using unsigned_less [of a] by simp

lemma and_255: "(x :: 'a::len word) AND 0xFF = take_bit 8 x"
  by (simp add: take_bit_eq_mask mask_eq_exp_minus_1)

lemma be32_word_cat:
  "(push_bit 24 (ucast (a::u8)) OR push_bit 16 (ucast (b::u8))
      OR push_bit 8 (ucast (c::u8)) OR ucast (d::u8) :: u32)
   = word_cat a (word_cat b (word_cat c d :: u16) :: 24 word)"
  by (rule bit_word_eqI) (auto simp add: bit_simps dest: bit_imp_le_length)

lemma unat_word_cat_gen:
  fixes x :: "'a::len word" and y :: "'b::len word"
  assumes "LENGTH('a) + LENGTH('b) \<le> LENGTH('c::len)"
  shows "unat (word_cat x y :: 'c word) = 2 ^ LENGTH('b) * unat x + unat y"
proof -
  let ?n = "2 ^ LENGTH('b) * unat x + unat y"
  have "word_cat x y = (of_nat ?n :: 'c word)"
    by (simp add: word_cat_eq push_bit_eq_mult)
  then have eq: "unat (word_cat x y :: 'c word) = ?n mod 2 ^ LENGTH('c)"
    by (simp only: unat_of_nat)
  have "unat x < 2 ^ LENGTH('a)" and y: "unat y < 2 ^ LENGTH('b)"
    by simp_all
  then have x: "unat x + 1 \<le> 2 ^ LENGTH('a)"
    by (simp add: Suc_le_eq)
  have "?n < 2 ^ LENGTH('b) * (unat x + 1)"
    using y by simp
  also have "\<dots> \<le> 2 ^ LENGTH('b) * 2 ^ LENGTH('a)"
    using x by (rule mult_le_mono2)
  also have "\<dots> = 2 ^ (LENGTH('a) + LENGTH('b))"
    by (simp add: power_add)
  also have "\<dots> \<le> 2 ^ LENGTH('c)"
    using assms by (rule power_increasing) simp
  finally show ?thesis
    using eq by simp
qed

lemma unat_be32:
  "unat (push_bit 24 (ucast (a::u8)) OR push_bit 16 (ucast (b::u8))
      OR push_bit 8 (ucast (c::u8)) OR ucast (d::u8) :: u32)
     = 16777216 * unat a + 65536 * unat b + 256 * unat c + unat d"
  by (simp add: be32_word_cat unat_word_cat_gen)

lemma unat_be16:
  "unat (push_bit 8 (ucast (a::u8)) OR ucast (b::u8) :: u16) = 256 * unat a + unat b"
proof -
  have "(push_bit 8 (ucast a) OR ucast b :: u16) = word_cat a b"
    by (rule bit_word_eqI) (auto simp add: bit_simps dest: bit_imp_le_length)
  then show ?thesis
    by (simp add: unat_word_cat_gen)
qed

lemma bswap_16_le:
  "bswap_16 (ucast (a::u8) OR push_bit 8 (ucast (b::u8))) = push_bit 8 (ucast a) OR ucast b"
  unfolding bswap_16_def and_255
  by (rule bit_word_eqI) (auto simp add: bit_simps dest: bit_imp_le_length)

lemma le32_byte0:
  "(ucast (a::u8) OR push_bit 8 (ucast (b::u8))
       OR push_bit 16 (ucast (c::u8)) OR push_bit 24 (ucast (d::u8)) :: u32) AND 0xFF = ucast a"
  unfolding and_255
  by (rule bit_word_eqI) (auto simp add: bit_simps dest: bit_imp_le_length)

lemma le32_byte1:
  "drop_bit 8 (ucast (a::u8) OR push_bit 8 (ucast (b::u8))
       OR push_bit 16 (ucast (c::u8)) OR push_bit 24 (ucast (d::u8)) :: u32) AND 0xFF = ucast b"
  unfolding and_255
  by (rule bit_word_eqI) (auto simp add: bit_simps dest: bit_imp_le_length)

lemma le32_byte2:
  "drop_bit 16 (ucast (a::u8) OR push_bit 8 (ucast (b::u8))
       OR push_bit 16 (ucast (c::u8)) OR push_bit 24 (ucast (d::u8)) :: u32) AND 0xFF = ucast c"
  unfolding and_255
  by (rule bit_word_eqI) (auto simp add: bit_simps dest: bit_imp_le_length)

lemma le32_byte3:
  "drop_bit 24 (ucast (a::u8) OR push_bit 8 (ucast (b::u8))
       OR push_bit 16 (ucast (c::u8)) OR push_bit 24 (ucast (d::u8)) :: u32) = ucast d"
  by (rule bit_word_eqI) (auto simp add: bit_simps dest: bit_imp_le_length)

lemma be32_byte0:
  "drop_bit 24 (push_bit 24 (ucast (a::u8)) OR push_bit 16 (ucast (b::u8))
       OR push_bit 8 (ucast (c::u8)) OR ucast (d::u8) :: u32) = ucast a"
  by (rule bit_word_eqI) (auto simp add: bit_simps dest: bit_imp_le_length)

lemma be32_byte1:
  "drop_bit 16 (push_bit 24 (ucast (a::u8)) OR push_bit 16 (ucast (b::u8))
       OR push_bit 8 (ucast (c::u8)) OR ucast (d::u8) :: u32) AND 0xFF = ucast b"
  unfolding and_255
  by (rule bit_word_eqI) (auto simp add: bit_simps dest: bit_imp_le_length)

lemma be32_byte2:
  "drop_bit 8 (push_bit 24 (ucast (a::u8)) OR push_bit 16 (ucast (b::u8))
       OR push_bit 8 (ucast (c::u8)) OR ucast (d::u8) :: u32) AND 0xFF = ucast c"
  unfolding and_255
  by (rule bit_word_eqI) (auto simp add: bit_simps dest: bit_imp_le_length)

lemma be32_byte3:
  "(push_bit 24 (ucast (a::u8)) OR push_bit 16 (ucast (b::u8))
       OR push_bit 8 (ucast (c::u8)) OR ucast (d::u8) :: u32) AND 0xFF = ucast d"
  unfolding and_255
  by (rule bit_word_eqI) (auto simp add: bit_simps dest: bit_imp_le_length)

lemma unat_ucast_u8: "unat (ucast (a::u8) :: u32) = unat a"
  by (simp add: unsigned_ucast_eq take_bit_nat_eq_self u8_bound less_trans [OF u8_bound])

lemma ntohs_load_u16: "unat (ntohs e (load_u16 e buf p)) = be16 buf p"
  by (cases e) (simp_all add: ntohs_def load_u16_def bswap_16_le unat_be16 be16_def)

lemma ntohl_load_u32: "unat (ntohl e (load_u32 e buf p)) = be32 buf p"
  by (cases e)
    (simp_all only: ntohl_def load_u32_def bswap_32_def le32_byte0 le32_byte1 le32_byte2
      le32_byte3 unat_be32 be32_def endian.case)

lemma inet_ntoa_load_u32:
  "inet_ntoa e (load_u32 e buf p) = map (\<lambda>k. unat (buf (p + k))) [0, 1, 2, 3]"
  by (cases e)
    (simp_all only: inet_ntoa_def load_u32_def le32_byte0 le32_byte1 le32_byte2 le32_byte3
      be32_byte0 be32_byte1 be32_byte2 be32_byte3 unat_ucast_u8 endian.case list.map
      add_0_right)

lemma unat_load_u16_le:
  "unat (load_u16 LittleEndian buf p) = unat (buf p) + 256 * unat (buf (p + 1))"
proof -
  have "load_u16 LittleEndian buf p = push_bit 8 (ucast (buf (p + 1))) OR ucast (buf p)"
    by (simp add: load_u16_def or.commute)
  then show ?thesis
    by (simp add: unat_be16)
qed

lemma unat_load_u16_be: "unat (load_u16 BigEndian buf p) = be16 buf p"
  by (simp add: load_u16_def unat_be16 be16_def)


lemma unat_low_nibble: "unat ((b::u8) AND 0x0F) = unat b mod 16"
proof -
  have "b AND 0x0F = take_bit 4 b"
    by (simp add: take_bit_eq_mask mask_eq_exp_minus_1)
  then have "unat (b AND 0x0F) = take_bit 4 (unat b)"
    by (simp only: unsigned_take_bit_eq)
  then show ?thesis
    by (simp add: take_bit_eq_mod)
qed

lemma unat_drop_bit_u8: "unat (drop_bit k (b::u8)) = unat b div 2 ^ k"
  by (simp only: unat_drop_bit_eq) (simp add: drop_bit_eq_div)

lemma unat_flag: "unat (drop_bit k (b::u8) AND 1) = unat b div 2 ^ k mod 2"
proof -
  have "drop_bit k b AND 1 = take_bit 1 (drop_bit k b)"
    by (simp add: take_bit_eq_mask)
  then have "unat (drop_bit k b AND 1) = take_bit 1 (unat (drop_bit k b))"
    by (simp only: unsigned_take_bit_eq)
  then show ?thesis
    by (simp add: take_bit_eq_mod unat_drop_bit_u8)
qed

lemma unat_flag0: "unat ((b::u8) AND 1) = unat b mod 2"
  using unat_flag [of 0 b] by simp

lemma unat_times_4: "unat ((ucast (x::u8) :: u32) * 4) = 4 * unat x"
proof -
  have "unat (ucast x :: u32) * unat (4 :: u32) < 2 ^ LENGTH(32)"
    using u8_bound [of x] by (simp add: unat_ucast_u8)
  then have "unat ((ucast x :: u32) * 4) = unat (ucast x :: u32) * unat (4 :: u32)"
    by (simp only: unat_mult_lem)
  then show ?thesis
    by (simp add: unat_ucast_u8)
qed

lemma tcp_offset_eq: "tcp_offset buf = 14 + 4 * (unat (buf 14) mod 16)"
  by (simp add: tcp_offset_def sizeof_ethhdr_def iph_ihl_def unat_low_nibble)

lemma tcp_offset_bounds: "14 \<le> tcp_offset buf \<and> tcp_offset buf \<le> 74"
  unfolding tcp_offset_eq by arith

section \<open>The decoders, field by field\<close>

lemma write_bytes_Nil: "write_bytes buf [] = buf"
  by (simp add: write_bytes_def)

lemma write_bytes_beyond: "length bs \<le> i \<Longrightarrow> write_bytes buf bs i = buf i"
  by (simp add: write_bytes_def)

lemma write_bytes_within: "i < length bs \<Longrightarrow> write_bytes buf bs i = bs ! i"
  by (simp add: write_bytes_def)

lemma write_bytes_twice: "write_bytes (write_bytes buf bs) bs = write_bytes buf bs"
  by (rule ext) (simp add: write_bytes_def)

lemma ethernet_fields_eq:
  "ethernet_fields e buf =
     \<lparr>eth_destination =
        [unat (buf 0), unat (buf 1), unat (buf 2), unat (buf 3), unat (buf 4), unat (buf 5)],
      eth_source =
        [unat (buf 6), unat (buf 7), unat (buf 8), unat (buf 9), unat (buf 10),
         unat (buf 11)],
      eth_protocol = unat (load_u16 e buf 12)\<rparr>"
  by (simp add: ethernet_fields_def h_dest_def h_source_def h_proto_def
      numeral_2_eq_2 [symmetric])

lemma ip_fields_eq:
  "ip_fields e buf =
     \<lparr>ip_version = unat (buf 14) div 16,
      ip_header_dwords = unat (buf 14) mod 16,
      ip_header_bytes = 4 * (unat (buf 14) mod 16),
      ip_type_of_service = unat (buf 15),
      ip_total_length = be16 buf 16,
      ip_identification = be16 buf 18,
      ip_ttl = unat (buf 22),
      ip_protocol = unat (buf 23),
      ip_checksum = be16 buf 24,
      ip_source = [unat (buf 26), unat (buf 27), unat (buf 28), unat (buf 29)],
      ip_destination = [unat (buf 30), unat (buf 31), unat (buf 32), unat (buf 33)]\<rparr>"
  by (simp add: ip_fields_def sizeof_ethhdr_def iph_version_def iph_ihl_def iph_tos_def
      iph_tot_len_def iph_id_def iph_ttl_def iph_protocol_def iph_check_def iph_saddr_def
      iph_daddr_def unat_drop_bit_u8 unat_low_nibble unat_times_4 ntohs_load_u16
      inet_ntoa_load_u32)

lemma tcp_fields_eq:
  "tcp_fields e buf =
     (let tcp = 14 + 4 * (unat (buf 14) mod 16) in
      \<lparr>tcp_source_port = be16 buf tcp,
       tcp_destination_port = be16 buf (tcp + 2),
       tcp_sequence_number = be32 buf (tcp + 4),
       tcp_acknowledge_number = be32 buf (tcp + 8),
       tcp_header_dwords = unat (buf (tcp + 12)) div 16,
       tcp_header_bytes = 4 * (unat (buf (tcp + 12)) div 16),
       tcp_urgent_flag = unat (buf (tcp + 13)) div 32 mod 2,
       tcp_acknowledgement_flag = unat (buf (tcp + 13)) div 16 mod 2,
       tcp_push_flag = unat (buf (tcp + 13)) div 8 mod 2,
       tcp_reset_flag = unat (buf (tcp + 13)) div 4 mod 2,
       tcp_synchronise_flag = unat (buf (tcp + 13)) div 2 mod 2,
       tcp_finish_flag = unat (buf (tcp + 13)) mod 2,
       tcp_window = be16 buf (tcp + 14),
       tcp_checksum = be16 buf (tcp + 16),
       tcp_urgent_pointer = unat (load_u16 e buf (tcp + 18))\<rparr>)"
  unfolding tcp_fields_def tcp_offset_eq Let_def
  by (simp add: tcph_source_def tcph_dest_def tcph_seq_def tcph_ack_seq_def tcph_doff_def
      tcph_urg_def tcph_ack_def tcph_psh_def tcph_rst_def tcph_syn_def tcph_fin_def
      tcph_window_def tcph_check_def tcph_urg_ptr_def unat_drop_bit_u8 unat_flag unat_flag0
      unat_times_4 ntohs_load_u16 ntohl_load_u32)

lemma loop_body_Received:
  "loop_body e s (Received frame) =
     (let buf = write_bytes (buffer s) (take BUF_SIZE frame) in
      (None,
       s\<lparr>buffer := buf,
         stdout := stdout s @
           [Ethernet_Header (ethernet_fields e buf), IP_Header (ip_fields e buf),
            TCP_Header (tcp_fields e buf)]\<rparr>))"
  by (simp add: loop_body_def recvfrom_def print_ethernet_header_def print_ip_header_def
      print_tcp_packet_def Let_def)

lemma loop_body_Failed:
  "loop_body e s (Failed errno) =
     (Some (- 1), s\<lparr>stderr := stderr s @ [''No data received due to error'' @ [CHR 0x0A]]\<rparr>)"
  by (simp add: loop_body_def recvfrom_def)

lemma ethernet_fields_cong:
  assumes "\<And>i. i < 14 \<Longrightarrow> buf i = buf' i"
  shows "ethernet_fields e buf = ethernet_fields e buf'"
  by (cases e) (simp_all add: ethernet_fields_eq load_u16_def assms)

lemma ip_fields_cong:
  assumes "\<And>i. 14 \<le> i \<Longrightarrow> i < 34 \<Longrightarrow> buf i = buf' i"
  shows "ip_fields e buf = ip_fields e buf'"
  by (simp add: ip_fields_eq be16_def assms)


lemma load_u16_cong:
  "buf p = buf' p \<Longrightarrow> buf (p + 1) = buf' (p + 1) \<Longrightarrow>
   load_u16 e buf p = load_u16 e buf' p"
  by (cases e) (simp_all add: load_u16_def)

lemma load_u32_cong:
  "buf p = buf' p \<Longrightarrow> buf (p + 1) = buf' (p + 1) \<Longrightarrow> buf (p + 2) = buf' (p + 2) \<Longrightarrow>
   buf (p + 3) = buf' (p + 3) \<Longrightarrow> load_u32 e buf p = load_u32 e buf' p"
  by (cases e) (simp_all add: load_u32_def)

lemma tcp_fields_cong:
  assumes "buf 14 = buf' 14"
    and "\<And>i. tcp_offset buf \<le> i \<Longrightarrow> i < tcp_offset buf + 20 \<Longrightarrow> buf i = buf' i"
  shows "tcp_fields e buf = tcp_fields e buf'"
proof -
  define tcp where "tcp = tcp_offset buf"
  have off: "tcp_offset buf' = tcp"
    by (simp add: tcp_def tcp_offset_def iph_ihl_def sizeof_ethhdr_def assms(1))
  have b: "buf (tcp + k) = buf' (tcp + k)" if "k < 20" for k
    using assms(2) [of "tcp + k"] that by (simp add: tcp_def)
  have b0: "buf tcp = buf' tcp"
    using b [of 0] by simp
  have w: "load_u16 e buf (tcp + k) = load_u16 e buf' (tcp + k)" if "k < 19" for k
    using b [of k] b [of "k + 1"] that by (intro load_u16_cong) (simp_all add: add.assoc)
  have w0: "load_u16 e buf tcp = load_u16 e buf' tcp"
    using w [of 0] by simp
  have d: "load_u32 e buf (tcp + k) = load_u32 e buf' (tcp + k)" if "k < 17" for k
    using b [of k] b [of "k + 1"] b [of "k + 2"] b [of "k + 3"] that
    by (intro load_u32_cong) (simp_all add: add.assoc)
  show ?thesis
    unfolding tcp_fields_def Let_def off tcp_def [symmetric]
    by (simp add: tcph_source_def tcph_dest_def tcph_seq_def tcph_ack_seq_def tcph_doff_def
      tcph_urg_def tcph_ack_def tcph_psh_def tcph_rst_def tcph_syn_def tcph_fin_def
      tcph_window_def tcph_check_def tcph_urg_ptr_def b b0 w w0 d
      del: add_2_eq_Suc add_2_eq_Suc')
qed

text \<open>
  The two 16-bit fields that are printed without a conversion: on a little-endian host
  their two bytes come out swapped, on a big-endian host they have their value on the
  wire.
\<close>

lemma eth_protocol_host_order:
  "eth_protocol (ethernet_fields LittleEndian buf) = unat (buf 12) + 256 * unat (buf 13)"
  "eth_protocol (ethernet_fields BigEndian buf) = be16 buf 12"
  using unat_load_u16_le [of buf 12] unat_load_u16_be [of buf 12]
  by (simp_all add: ethernet_fields_eq)

lemma tcp_urgent_pointer_host_order:
  "tcp_urgent_pointer (tcp_fields LittleEndian buf) =
     unat (buf (tcp_offset buf + 18)) + 256 * unat (buf (tcp_offset buf + 19))"
  "tcp_urgent_pointer (tcp_fields BigEndian buf) = be16 buf (tcp_offset buf + 18)"
  using unat_load_u16_le [of buf "tcp_offset buf + 18"]
    unat_load_u16_be [of buf "tcp_offset buf + 18"]
  by (simp_all add: tcp_fields_eq Let_def tcp_offset_eq add.assoc)

section \<open>Evaluation at the concrete frames\<close>

lemmas decode_defs =
  ethernet_fields_def ip_fields_def tcp_fields_def tcp_offset_def
  sizeof_ethhdr_def h_dest_def h_source_def h_proto_def
  iph_ihl_def iph_version_def iph_tos_def iph_tot_len_def iph_id_def iph_ttl_def
  iph_protocol_def iph_check_def iph_saddr_def iph_daddr_def
  tcph_source_def tcph_dest_def tcph_seq_def tcph_ack_seq_def tcph_doff_def
  tcph_fin_def tcph_syn_def tcph_rst_def tcph_psh_def tcph_ack_def tcph_urg_def
  tcph_window_def tcph_check_def tcph_urg_ptr_def
  load_u16_def load_u32_def ntohs_def ntohl_def bswap_16_def bswap_32_def inet_ntoa_def
  write_bytes_def zeroed_def

lemma take_short_frame: "take BUF_SIZE short_frame = short_frame"
  by (simp add: BUF_SIZE_def short_frame_def)

lemma main_one_frame:
  "0 \<le> raw_socket \<Longrightarrow>
   main e raw_socket buf0 [Received frame] =
     Blocked
       \<lparr>buffer = write_bytes buf0 (take BUF_SIZE frame),
        stdout =
          [Ethernet_Header (ethernet_fields e (write_bytes buf0 (take BUF_SIZE frame))),
           IP_Header (ip_fields e (write_bytes buf0 (take BUF_SIZE frame))),
           TCP_Header (tcp_fields e (write_bytes buf0 (take BUF_SIZE frame)))],
        stderr = []\<rparr>"
  by (simp add: main_def loop_body_Received Let_def)

lemma take_syn_frame: "take BUF_SIZE syn_frame = syn_frame"
  by (simp add: BUF_SIZE_def syn_frame_def)

lemma take_urgent_frame: "take BUF_SIZE urgent_frame = urgent_frame"
  by (simp add: BUF_SIZE_def urgent_frame_def)

lemma take_udp_frame: "take BUF_SIZE udp_frame = udp_frame"
  by (simp add: BUF_SIZE_def udp_frame_def)

lemma take_ihl0_frame: "take BUF_SIZE ihl0_frame = ihl0_frame"
  by (simp add: BUF_SIZE_def ihl0_frame_def)

lemma take_options_frame: "take BUF_SIZE options_frame = options_frame"
  by (simp add: BUF_SIZE_def options_frame_def)

section \<open>The loop, pass by pass\<close>

lemma prints_buffer:
  "buffer (print_tcp_packet e (print_ip_header e (print_ethernet_header e s))) = buffer s"
  by (simp add: print_tcp_packet_def print_ip_header_def print_ethernet_header_def)

lemma prints_stdout:
  "stdout (print_tcp_packet e (print_ip_header e (print_ethernet_header e s))) =
     stdout s @
       [Ethernet_Header (ethernet_fields e (buffer s)), IP_Header (ip_fields e (buffer s)),
        TCP_Header (tcp_fields e (buffer s))]"
  by (simp add: print_tcp_packet_def print_ip_header_def print_ethernet_header_def)

lemma capture_loop_Received:
  "capture_loop e s (Received frame # evs) =
     capture_loop e (snd (loop_body e s (Received frame))) evs"
  by (simp add: loop_body_Received Let_def)

lemma capture_loop_Failed:
  "capture_loop e s (Failed errno # evs) =
     Returned (- 1) (s\<lparr>stderr := stderr s @ [''No data received due to error'' @ [CHR 0x0A]]\<rparr>)"
  by (simp add: loop_body_Failed)

lemma pass_stdout_length:
  "length (stdout (snd (loop_body e s (Received frame)))) = length (stdout s) + 3"
  by (simp add: loop_body_Received Let_def)

lemma pass_stderr: "stderr (snd (loop_body e s (Received frame))) = stderr s"
  by (simp add: loop_body_Received Let_def)

lemma recvfrom_nonnegative:
  "(0 \<le> fst (recvfrom ev buf)) = (case ev of Received frame \<Rightarrow> True | Failed errno \<Rightarrow> False)"
  by (cases ev) (simp_all add: recvfrom_def)

lemma loop_body_returns:
  "fst (loop_body e s ev) = (if fst (recvfrom ev (buffer s)) < 0 then Some (- 1) else None)"
  by (cases ev) (simp_all add: loop_body_def recvfrom_def)

lemma capture_loop_blocked:
  "(exit_status (capture_loop e s evs) = None) =
     list_all (\<lambda>ev. 0 \<le> fst (recvfrom ev buf)) evs"
proof (induction evs arbitrary: s)
  case Nil
  show ?case by simp
next
  case (Cons ev evs)
  show ?case
  proof (cases ev)
    case (Received frame)
    then show ?thesis
      using Cons.IH [of "snd (loop_body e s (Received frame))"]
      by (simp add: loop_body_Received Let_def recvfrom_nonnegative)
  next
    case (Failed errno)
    then show ?thesis
      by (simp add: loop_body_Failed recvfrom_nonnegative)
  qed
qed

lemma flag_of_bit: "unat (b::u8) div 2 ^ k mod 2 = (if bit b k then 1 else 0)"
proof -
  have "bit (unat b) k = bit b k"
    by (simp add: bit_unsigned_iff)
  then have "odd (unat b div 2 ^ k) = bit b k"
    by (simp only: bit_iff_odd [of "unat b" k])
  then show ?thesis
    by (cases "bit b k") (simp_all add: odd_iff_mod_2_eq_one)
qed

section \<open>Frames shorter than an Ethernet header\<close>

text \<open>
  Claim C1 says that a frame of fewer than 14 bytes makes the Ethernet step fail with
  a truncation error and that no IPv4 or TCP header is produced for it. The program has
  no length check: \<^verbatim>\<open>msg_len\<close> is only compared with zero. For a frame of 13 bytes
  received into a zeroed buffer, \<open>main\<close> prints all three blocks, writes nothing to
  standard error and goes on to the next read.
\<close>

theorem short_frame_counterexample:
  "length short_frame = 13 \<and>
   exit_status (main LittleEndian 3 zeroed [Received short_frame]) = None \<and>
   stderr (final_state (main LittleEndian 3 zeroed [Received short_frame])) = [] \<and>
   stdout (final_state (main LittleEndian 3 zeroed [Received short_frame])) =
     [Ethernet_Header
        \<lparr>eth_destination = [255, 255, 255, 255, 255, 255],
         eth_source = [0, 17, 34, 51, 68, 85], eth_protocol = 8\<rparr>,
      IP_Header
        \<lparr>ip_version = 0, ip_header_dwords = 0, ip_header_bytes = 0,
         ip_type_of_service = 0, ip_total_length = 0,
         ip_identification = 0, ip_ttl = 0, ip_protocol = 0,
         ip_checksum = 0, ip_source = [0, 0, 0, 0],
         ip_destination = [0, 0, 0, 0]\<rparr>,
      TCP_Header
        \<lparr>tcp_source_port = 0, tcp_destination_port = 0,
         tcp_sequence_number = 0, tcp_acknowledge_number = 0,
         tcp_header_dwords = 0, tcp_header_bytes = 0,
         tcp_urgent_flag = 0, tcp_acknowledgement_flag = 0,
         tcp_push_flag = 0, tcp_reset_flag = 0,
         tcp_synchronise_flag = 0, tcp_finish_flag = 0,
         tcp_window = 0, tcp_checksum = 0,
         tcp_urgent_pointer = 0\<rparr>]"
  by (simp add: main_one_frame take_short_frame) (simp add: decode_defs short_frame_def)

text \<open>
  Claim C1, amended to what the program does: for every frame of length \<open>L < 14\<close> the
  pass reports no error and does not return; it prints the Ethernet block decoded from
  the first 14 bytes of the buffer (the \<open>L\<close> bytes received, then whatever the buffer
  held before), and then an IPv4 block and a TCP block decoded entirely from bytes that
  earlier reads left in the buffer.
\<close>

theorem short_frame_decoded_unchecked:
  assumes "length frame < 14"
  shows "loop_body e s (Received frame) =
     (None,
      s\<lparr>buffer := write_bytes (buffer s) frame,
        stdout := stdout s @
          [Ethernet_Header (ethernet_fields e (write_bytes (buffer s) frame)),
           IP_Header (ip_fields e (buffer s)),
           TCP_Header (tcp_fields e (buffer s))]\<rparr>)"
proof -
  let ?buf = "write_bytes (buffer s) frame"
  have old: "?buf i = buffer s i" if "14 \<le> i" for i
    using assms that by (simp add: write_bytes_beyond)
  have "take BUF_SIZE frame = frame"
    using assms by (simp add: BUF_SIZE_def)
  moreover have "ip_fields e ?buf = ip_fields e (buffer s)"
    by (rule ip_fields_cong) (simp add: old)
  moreover have "tcp_fields e ?buf = tcp_fields e (buffer s)"
    using tcp_offset_bounds [of ?buf] by (intro tcp_fields_cong) (simp_all add: old)
  ultimately show ?thesis
    by (simp add: loop_body_Received Let_def)
qed

text \<open>
  The amended claim at the 13-byte frame, received after a full TCP frame: the IPv4 and
  TCP blocks printed for the short frame are those of the frame before it.
\<close>

theorem short_frame_decoded_unchecked_witness:
  "length short_frame < 14 \<and>
   fst (loop_body LittleEndian
          \<lparr>buffer = write_bytes zeroed syn_frame, stdout = [], stderr = []\<rparr>
          (Received short_frame)) = None \<and>
   stderr (snd (loop_body LittleEndian
          \<lparr>buffer = write_bytes zeroed syn_frame, stdout = [], stderr = []\<rparr>
          (Received short_frame))) = [] \<and>
   stdout (snd (loop_body LittleEndian
          \<lparr>buffer = write_bytes zeroed syn_frame, stdout = [], stderr = []\<rparr>
          (Received short_frame))) =
     [Ethernet_Header
        \<lparr>eth_destination = [255, 255, 255, 255, 255, 255],
         eth_source = [0, 17, 34, 51, 68, 85], eth_protocol = 8\<rparr>,
      IP_Header
        \<lparr>ip_version = 4, ip_header_dwords = 5, ip_header_bytes = 20,
         ip_type_of_service = 0, ip_total_length = 40,
         ip_identification = 7238, ip_ttl = 64, ip_protocol = 6,
         ip_checksum = 45542, ip_source = [192, 168, 0, 1],
         ip_destination = [192, 168, 0, 199]\<rparr>,
      TCP_Header
        \<lparr>tcp_source_port = 12345, tcp_destination_port = 80,
         tcp_sequence_number = 1, tcp_acknowledge_number = 0,
         tcp_header_dwords = 5, tcp_header_bytes = 20,
         tcp_urgent_flag = 0, tcp_acknowledgement_flag = 0,
         tcp_push_flag = 0, tcp_reset_flag = 0,
         tcp_synchronise_flag = 1, tcp_finish_flag = 0,
         tcp_window = 29200, tcp_checksum = 7723,
         tcp_urgent_pointer = 0\<rparr>]"
proof -
  have short: "length short_frame < 14"
    by (simp add: short_frame_def)
  show ?thesis
    using short
      short_frame_decoded_unchecked [OF short, of LittleEndian
        "\<lparr>buffer = write_bytes zeroed syn_frame, stdout = [], stderr = []\<rparr>"]
    by (simp add: decode_defs short_frame_def syn_frame_def)
qed

section \<open>The protocol field and the TCP step\<close>

text \<open>
  Claim C2 says that the TCP step is attempted only when the protocol field of the IPv4
  header is 6, and that otherwise no TCP header is produced. The program never reads the
  protocol field to decide anything: \<^verbatim>\<open>print_tcp_packet\<close> is called on every pass.
  For the 74-byte frame with \<open>IHL = 15\<close> and protocol 17 (UDP), received into a zeroed
  buffer, a TCP block is printed all the same; it is decoded at offset 74, just past the
  end of the frame.
\<close>

theorem udp_frame_counterexample:
  "length udp_frame = 74 \<and>
   exit_status (main LittleEndian 3 zeroed [Received udp_frame]) = None \<and>
   stderr (final_state (main LittleEndian 3 zeroed [Received udp_frame])) = [] \<and>
   stdout (final_state (main LittleEndian 3 zeroed [Received udp_frame])) =
     [Ethernet_Header
        \<lparr>eth_destination = [0, 26, 43, 60, 77, 94],
         eth_source = [0, 17, 34, 51, 68, 85], eth_protocol = 8\<rparr>,
      IP_Header
        \<lparr>ip_version = 4, ip_header_dwords = 15, ip_header_bytes = 60,
         ip_type_of_service = 0, ip_total_length = 60,
         ip_identification = 7238, ip_ttl = 64, ip_protocol = 17,
         ip_checksum = 45542, ip_source = [192, 168, 0, 1],
         ip_destination = [192, 168, 0, 199]\<rparr>,
      TCP_Header
        \<lparr>tcp_source_port = 0, tcp_destination_port = 0,
         tcp_sequence_number = 0, tcp_acknowledge_number = 0,
         tcp_header_dwords = 0, tcp_header_bytes = 0,
         tcp_urgent_flag = 0, tcp_acknowledgement_flag = 0,
         tcp_push_flag = 0, tcp_reset_flag = 0,
         tcp_synchronise_flag = 0, tcp_finish_flag = 0,
         tcp_window = 0, tcp_checksum = 0,
         tcp_urgent_pointer = 0\<rparr>]"
  by (simp add: main_one_frame take_udp_frame) (simp add: decode_defs udp_frame_def)

text \<open>
  Claim C2, amended to what the program does: for every frame, whatever the protocol
  field of the IPv4 header holds, the pass prints a TCP block after the Ethernet and IPv4
  blocks (so also when the protocol field, byte 23 of the buffer, differs from 6), it
  writes no error and it does not return.
\<close>

theorem tcp_decoded_for_every_protocol:
  "fst (loop_body e s (Received frame)) = None \<and>
   stderr (snd (loop_body e s (Received frame))) = stderr s \<and>
   buffer (snd (loop_body e s (Received frame))) =
     write_bytes (buffer s) (take BUF_SIZE frame) \<and>
   stdout (snd (loop_body e s (Received frame))) =
     stdout s @
       [Ethernet_Header (ethernet_fields e (write_bytes (buffer s) (take BUF_SIZE frame))),
        IP_Header (ip_fields e (write_bytes (buffer s) (take BUF_SIZE frame))),
        TCP_Header (tcp_fields e (write_bytes (buffer s) (take BUF_SIZE frame)))] \<and>
   ip_protocol (ip_fields e (write_bytes (buffer s) (take BUF_SIZE frame))) =
     unat (write_bytes (buffer s) (take BUF_SIZE frame) 23)"
  by (simp add: loop_body_Received Let_def ip_fields_eq)

text \<open>
  The amended claim at the UDP frame, on a big-endian host, after a TCP frame has been
  received.
\<close>

theorem tcp_decoded_for_every_protocol_witness:
  "ip_protocol (ip_fields BigEndian (write_bytes (write_bytes zeroed syn_frame) udp_frame)) = 17 \<and>
   stdout (snd (loop_body BigEndian
          \<lparr>buffer = write_bytes zeroed syn_frame, stdout = [], stderr = []\<rparr>
          (Received udp_frame))) =
     [Ethernet_Header
        \<lparr>eth_destination = [0, 26, 43, 60, 77, 94],
         eth_source = [0, 17, 34, 51, 68, 85], eth_protocol = 2048\<rparr>,
      IP_Header
        \<lparr>ip_version = 4, ip_header_dwords = 15, ip_header_bytes = 60,
         ip_type_of_service = 0, ip_total_length = 60,
         ip_identification = 7238, ip_ttl = 64, ip_protocol = 17,
         ip_checksum = 45542, ip_source = [192, 168, 0, 1],
         ip_destination = [192, 168, 0, 199]\<rparr>,
      TCP_Header
        \<lparr>tcp_source_port = 0, tcp_destination_port = 0,
         tcp_sequence_number = 0, tcp_acknowledge_number = 0,
         tcp_header_dwords = 0, tcp_header_bytes = 0,
         tcp_urgent_flag = 0, tcp_acknowledgement_flag = 0,
         tcp_push_flag = 0, tcp_reset_flag = 0,
         tcp_synchronise_flag = 0, tcp_finish_flag = 0,
         tcp_window = 0, tcp_checksum = 0,
         tcp_urgent_pointer = 0\<rparr>]"
  using tcp_decoded_for_every_protocol [of BigEndian
      "\<lparr>buffer = write_bytes zeroed syn_frame, stdout = [], stderr = []\<rparr>" udp_frame]
  by (simp add: take_udp_frame) (simp add: decode_defs udp_frame_def syn_frame_def)

section \<open>Byte order of the printed fields\<close>

text \<open>
  Claim C3 says that every multi-byte field is printed converted from network byte order,
  the Ethernet ether-type and the TCP urgent pointer among them. The program converts
  the IPv4 and TCP fields with \<^verbatim>\<open>ntohs\<close> and \<^verbatim>\<open>ntohl\<close>, but prints
  \<^verbatim>\<open>eth->h_proto\<close> and \<^verbatim>\<open>tcp->urg_ptr\<close> as they are read. On a little-endian
  host, for a frame whose ether-type is \<open>0x0800 = 2048\<close> and whose urgent pointer is 1,
  it prints 8 and 256, while every field that goes through a conversion is printed with
  its value on the wire. (Lemmas \<open>eth_protocol_host_order\<close> and
  \<open>tcp_urgent_pointer_host_order\<close> give the two fields for every buffer.)
\<close>

theorem ether_type_and_urgent_pointer_unswapped:
  "be16 (write_bytes zeroed urgent_frame) 12 = 2048 \<and>
   be16 (write_bytes zeroed urgent_frame) 52 = 1 \<and>
   stdout (final_state (main LittleEndian 3 zeroed [Received urgent_frame])) =
     [Ethernet_Header
        \<lparr>eth_destination = [0, 26, 43, 60, 77, 94],
         eth_source = [0, 17, 34, 51, 68, 85], eth_protocol = 8\<rparr>,
      IP_Header
        \<lparr>ip_version = 4, ip_header_dwords = 5, ip_header_bytes = 20,
         ip_type_of_service = 0, ip_total_length = 40,
         ip_identification = 7238, ip_ttl = 64, ip_protocol = 6,
         ip_checksum = 45542, ip_source = [192, 168, 0, 1],
         ip_destination = [192, 168, 0, 199]\<rparr>,
      TCP_Header
        \<lparr>tcp_source_port = 12345, tcp_destination_port = 23,
         tcp_sequence_number = 1, tcp_acknowledge_number = 2,
         tcp_header_dwords = 5, tcp_header_bytes = 20,
         tcp_urgent_flag = 1, tcp_acknowledgement_flag = 1,
         tcp_push_flag = 0, tcp_reset_flag = 0,
         tcp_synchronise_flag = 0, tcp_finish_flag = 0,
         tcp_window = 29200, tcp_checksum = 7723,
         tcp_urgent_pointer = 256\<rparr>]"
  by (simp add: main_one_frame take_urgent_frame)
    (simp add: decode_defs be16_def urgent_frame_def)

section \<open>An IPv4 header length below five words\<close>

text \<open>
  Claim C4 says that a frame whose IHL nibble is below 5 makes the IPv4 step fail and
  that its IHL is never used to place a TCP header. The program does not compare IHL
  with anything. For a frame with \<open>IHL = 0\<close> it prints the IPv4 block with a header
  length of 0 bytes, and a TCP block decoded at offset \<open>14 + 0\<close>, that is, from the
  bytes of the IPv4 header itself.
\<close>

theorem ihl0_frame_counterexample:
  "unat (iph_ihl (write_bytes zeroed ihl0_frame) sizeof_ethhdr) = 0 \<and>
   tcp_offset (write_bytes zeroed ihl0_frame) = 14 \<and>
   exit_status (main LittleEndian 3 zeroed [Received ihl0_frame]) = None \<and>
   stderr (final_state (main LittleEndian 3 zeroed [Received ihl0_frame])) = [] \<and>
   stdout (final_state (main LittleEndian 3 zeroed [Received ihl0_frame])) =
     [Ethernet_Header
        \<lparr>eth_destination = [0, 26, 43, 60, 77, 94],
         eth_source = [0, 17, 34, 51, 68, 85], eth_protocol = 8\<rparr>,
      IP_Header
        \<lparr>ip_version = 4, ip_header_dwords = 0, ip_header_bytes = 0,
         ip_type_of_service = 0, ip_total_length = 40,
         ip_identification = 7238, ip_ttl = 64, ip_protocol = 6,
         ip_checksum = 45542, ip_source = [192, 168, 0, 1],
         ip_destination = [192, 168, 0, 199]\<rparr>,
      TCP_Header
        \<lparr>tcp_source_port = 16384, tcp_destination_port = 40,
         tcp_sequence_number = 474365952, tcp_acknowledge_number = 1074180582,
         tcp_header_dwords = 12, tcp_header_bytes = 48,
         tcp_urgent_flag = 1, tcp_acknowledgement_flag = 0,
         tcp_push_flag = 1, tcp_reset_flag = 0,
         tcp_synchronise_flag = 0, tcp_finish_flag = 0,
         tcp_window = 1, tcp_checksum = 49320,
         tcp_urgent_pointer = 50944\<rparr>]"
  by (simp add: main_one_frame take_ihl0_frame)
    (simp add: decode_defs ihl0_frame_def)

text \<open>
  Claim C4, amended to what the program does: for every frame in which the IHL nibble
  read from byte 14 is less than 5, the pass reports no error and does not return; the
  IPv4 block is printed with the header length \<open>IHL\<close> words and \<open>IHL * 4\<close> bytes, and
  the TCP block is decoded at offset \<open>14 + IHL * 4\<close>, which is below 34 and so inside
  the bytes of the IPv4 header.
\<close>

theorem small_ihl_not_rejected:
  assumes "unat (iph_ihl (write_bytes (buffer s) (take BUF_SIZE frame)) sizeof_ethhdr) < 5"
  shows "loop_body e s (Received frame) =
       (None,
        s\<lparr>buffer := write_bytes (buffer s) (take BUF_SIZE frame),
          stdout := stdout s @
            [Ethernet_Header (ethernet_fields e (write_bytes (buffer s) (take BUF_SIZE frame))),
             IP_Header (ip_fields e (write_bytes (buffer s) (take BUF_SIZE frame))),
             TCP_Header (tcp_fields e (write_bytes (buffer s) (take BUF_SIZE frame)))]\<rparr>) \<and>
     ip_header_dwords (ip_fields e (write_bytes (buffer s) (take BUF_SIZE frame))) =
       unat (iph_ihl (write_bytes (buffer s) (take BUF_SIZE frame)) sizeof_ethhdr) \<and>
     ip_header_bytes (ip_fields e (write_bytes (buffer s) (take BUF_SIZE frame))) =
       4 * unat (iph_ihl (write_bytes (buffer s) (take BUF_SIZE frame)) sizeof_ethhdr) \<and>
     tcp_offset (write_bytes (buffer s) (take BUF_SIZE frame)) =
       14 + 4 * unat (iph_ihl (write_bytes (buffer s) (take BUF_SIZE frame)) sizeof_ethhdr) \<and>
     tcp_offset (write_bytes (buffer s) (take BUF_SIZE frame)) < 34 \<and>
     tcp_source_port (tcp_fields e (write_bytes (buffer s) (take BUF_SIZE frame))) =
       be16 (write_bytes (buffer s) (take BUF_SIZE frame))
         (tcp_offset (write_bytes (buffer s) (take BUF_SIZE frame)))"
proof -
  let ?buf = "write_bytes (buffer s) (take BUF_SIZE frame)"
  have ihl: "unat (iph_ihl ?buf sizeof_ethhdr) = unat (?buf 14) mod 16"
    by (simp add: iph_ihl_def sizeof_ethhdr_def unat_low_nibble)
  have "tcp_offset ?buf < 34"
    using assms unfolding ihl tcp_offset_eq by arith
  then show ?thesis
    unfolding ihl by (simp add: loop_body_Received Let_def ip_fields_eq tcp_fields_eq tcp_offset_eq)
qed

text \<open>
  The amended claim at the frame with \<open>IHL = 0\<close>: the TCP source port printed is the
  first two bytes of the IPv4 header, \<open>0x4000\<close>.
\<close>

theorem small_ihl_not_rejected_witness:
  "unat (iph_ihl (write_bytes zeroed ihl0_frame) sizeof_ethhdr) < 5 \<and>
   fst (loop_body BigEndian \<lparr>buffer = zeroed, stdout = [], stderr = []\<rparr> (Received ihl0_frame))
     = None \<and>
   ip_header_bytes (ip_fields BigEndian (write_bytes zeroed ihl0_frame)) = 0 \<and>
   tcp_offset (write_bytes zeroed ihl0_frame) = 14 \<and>
   tcp_source_port (tcp_fields BigEndian (write_bytes zeroed ihl0_frame)) = 16384 \<and>
   be16 (write_bytes zeroed ihl0_frame) 14 = 16384"
proof -
  have small: "unat (iph_ihl (write_bytes (buffer \<lparr>buffer = zeroed, stdout = [], stderr = []\<rparr>)
      (take BUF_SIZE ihl0_frame)) sizeof_ethhdr) < 5"
    by (simp add: take_ihl0_frame) (simp add: decode_defs ihl0_frame_def)
  show ?thesis
    using small small_ihl_not_rejected [OF small, of BigEndian]
    by (simp add: take_ihl0_frame) (simp add: decode_defs be16_def ihl0_frame_def)
qed

section \<open>A SYN segment without options\<close>

text \<open>
  Claim C5: for a frame of 54 bytes with ether-type \<open>0x0800\<close>, an IPv4 header with
  version 4, \<open>IHL = 5\<close> and protocol 6, and a TCP header with \<open>DOFF = 5\<close>, SYN set and
  ACK clear, all three headers are produced, and the TCP header is reported with the SYN
  flag 1, the ACK flag 0 and a length of 20 bytes. This holds for every such frame,
  whatever its other bytes, whatever the buffer held before and on a host of either byte
  order; the TCP header is decoded at offset 34.
\<close>

theorem syn_frame_three_headers:
  assumes "length frame = 54"
    and "frame ! 12 = 0x08" and "frame ! 13 = 0x00"
    and "frame ! 14 = 0x45" and "frame ! 23 = 6"
    and "drop_bit 4 (frame ! 46) = 5"
    and "bit (frame ! 47) 1" and "\<not> bit (frame ! 47) 4"
  shows "loop_body e s (Received frame) =
       (None,
        s\<lparr>buffer := write_bytes (buffer s) frame,
          stdout := stdout s @
            [Ethernet_Header (ethernet_fields e (write_bytes (buffer s) frame)),
             IP_Header (ip_fields e (write_bytes (buffer s) frame)),
             TCP_Header (tcp_fields e (write_bytes (buffer s) frame))]\<rparr>) \<and>
     be16 (write_bytes (buffer s) frame) 12 = 0x0800 \<and>
     ip_version (ip_fields e (write_bytes (buffer s) frame)) = 4 \<and>
     ip_header_dwords (ip_fields e (write_bytes (buffer s) frame)) = 5 \<and>
     ip_header_bytes (ip_fields e (write_bytes (buffer s) frame)) = 20 \<and>
     ip_protocol (ip_fields e (write_bytes (buffer s) frame)) = 6 \<and>
     tcp_offset (write_bytes (buffer s) frame) = 34 \<and>
     tcp_synchronise_flag (tcp_fields e (write_bytes (buffer s) frame)) = 1 \<and>
     tcp_acknowledgement_flag (tcp_fields e (write_bytes (buffer s) frame)) = 0 \<and>
     tcp_header_dwords (tcp_fields e (write_bytes (buffer s) frame)) = 5 \<and>
     tcp_header_bytes (tcp_fields e (write_bytes (buffer s) frame)) = 20"
proof -
  let ?buf = "write_bytes (buffer s) frame"
  have bytes: "?buf 12 = 0x08" "?buf 13 = 0x00" "?buf 14 = 0x45" "?buf 23 = 6"
    "drop_bit 4 (?buf 46) = 5" "bit (?buf 47) 1" "\<not> bit (?buf 47) 4"
    using assms by (simp_all add: write_bytes_within)
  have take: "take BUF_SIZE frame = frame"
    using assms(1) by (simp add: BUF_SIZE_def)
  have doff: "unat (?buf 46) div 16 = 5"
    using bytes(5) unat_drop_bit_u8 [of 4 "?buf 46"] by simp
  have syn: "unat (?buf 47) div 2 mod 2 = 1"
    using bytes(6) flag_of_bit [of "?buf 47" 1] by simp
  have ack: "unat (?buf 47) div 16 mod 2 = 0"
    using bytes(7) flag_of_bit [of "?buf 47" 4] by simp
  have off: "tcp_offset ?buf = 34"
    by (simp add: tcp_offset_eq bytes)
  show ?thesis
    by (simp add: loop_body_Received take Let_def ip_fields_eq tcp_fields_eq off be16_def
        bytes(1-4) doff syn ack)
qed

text \<open>
  The claim at one such frame, received by \<open>main\<close> into a zeroed buffer.
\<close>

theorem syn_frame_three_headers_witness:
  "length syn_frame = 54 \<and> syn_frame ! 12 = 0x08 \<and> syn_frame ! 13 = 0x00 \<and>
   syn_frame ! 14 = 0x45 \<and> syn_frame ! 23 = 6 \<and> drop_bit 4 (syn_frame ! 46) = 5 \<and>
   bit (syn_frame ! 47) 1 \<and> \<not> bit (syn_frame ! 47) 4 \<and>
   stderr (final_state (main LittleEndian 3 zeroed [Received syn_frame])) = [] \<and>
   stdout (final_state (main LittleEndian 3 zeroed [Received syn_frame])) =
     [Ethernet_Header (ethernet_fields LittleEndian (write_bytes zeroed syn_frame)),
      IP_Header (ip_fields LittleEndian (write_bytes zeroed syn_frame)),
      TCP_Header (tcp_fields LittleEndian (write_bytes zeroed syn_frame))] \<and>
   tcp_synchronise_flag (tcp_fields LittleEndian (write_bytes zeroed syn_frame)) = 1 \<and>
   tcp_acknowledgement_flag (tcp_fields LittleEndian (write_bytes zeroed syn_frame)) = 0 \<and>
   tcp_header_bytes (tcp_fields LittleEndian (write_bytes zeroed syn_frame)) = 20"
proof -
  have h: "length syn_frame = 54" "syn_frame ! 12 = 0x08" "syn_frame ! 13 = 0x00"
    "syn_frame ! 14 = 0x45" "syn_frame ! 23 = 6" "drop_bit 4 (syn_frame ! 46) = 5"
    "bit (syn_frame ! 47) 1" "\<not> bit (syn_frame ! 47) 4"
    by (simp_all add: syn_frame_def)
  show ?thesis
    using h syn_frame_three_headers [OF h, of LittleEndian
        "\<lparr>buffer = zeroed, stdout = [], stderr = []\<rparr>"]
    by (simp add: main_one_frame take_syn_frame)
qed

section \<open>Where each header starts and how long it says it is\<close>

text \<open>
  Claim C6 places the two headers by \<open>IHL\<close>, the low nibble of byte 14, and by
  \<open>DOFF\<close>, which it takes from the first byte of the TCP header. In
  \<^verbatim>\<open>struct tcphdr\<close> the field \<^verbatim>\<open>doff\<close> is the high nibble of the byte at offset 12
  of the TCP header. For a frame with \<open>IHL = 6\<close>, whose TCP header starts at offset 38
  with the byte \<open>0x00\<close> and holds \<open>0x60\<close> at offset \<open>38 + 12 = 50\<close>, the program
  reports a TCP header of 6 words, 24 bytes: the span \<open>[38, 62)\<close>, not the empty span
  that both nibbles of the first TCP byte would give.
\<close>

theorem options_frame_counterexample:
  "length options_frame = 62 \<and>
   tcp_offset (write_bytes zeroed options_frame) = 38 \<and>
   options_frame ! 38 = 0x00 \<and>
   options_frame ! 50 = 0x60 \<and>
   tcp_header_dwords (tcp_fields LittleEndian (write_bytes zeroed options_frame)) = 6 \<and>
   tcp_header_bytes (tcp_fields LittleEndian (write_bytes zeroed options_frame)) = 24 \<and>
   stdout (final_state (main LittleEndian 3 zeroed [Received options_frame])) =
     [Ethernet_Header
        \<lparr>eth_destination = [0, 26, 43, 60, 77, 94],
         eth_source = [0, 17, 34, 51, 68, 85], eth_protocol = 8\<rparr>,
      IP_Header
        \<lparr>ip_version = 4, ip_header_dwords = 6, ip_header_bytes = 24,
         ip_type_of_service = 0, ip_total_length = 48,
         ip_identification = 7238, ip_ttl = 64, ip_protocol = 6,
         ip_checksum = 45542, ip_source = [192, 168, 0, 1],
         ip_destination = [192, 168, 0, 199]\<rparr>,
      TCP_Header
        \<lparr>tcp_source_port = 80, tcp_destination_port = 12345,
         tcp_sequence_number = 1, tcp_acknowledge_number = 0,
         tcp_header_dwords = 6, tcp_header_bytes = 24,
         tcp_urgent_flag = 0, tcp_acknowledgement_flag = 0,
         tcp_push_flag = 0, tcp_reset_flag = 0,
         tcp_synchronise_flag = 1, tcp_finish_flag = 0,
         tcp_window = 29200, tcp_checksum = 7723,
         tcp_urgent_pointer = 0\<rparr>]"
  by (simp add: main_one_frame take_options_frame)
    (simp add: decode_defs options_frame_def)

text \<open>
  Claim C6, amended to what the program does: for every content of the buffer, the IPv4
  header is decoded from offset 14 on and is reported with the length \<open>IHL * 4\<close>, where
  \<open>IHL\<close> is the low nibble of byte 14; the TCP header is decoded from offset
  \<open>14 + IHL * 4\<close> on, the offset derived from the length the IPv4 header declares, and
  is reported with the length \<open>DOFF * 4\<close>, where \<open>DOFF\<close> is the high nibble of the byte
  at offset 12 of the TCP header. So the declared spans are \<open>[14, 14 + IHL * 4)\<close> and
  \<open>[14 + IHL * 4, 14 + IHL * 4 + DOFF * 4)\<close>. (The fields themselves are read from the
  20 bytes that follow each start offset: lemmas \<open>ip_fields_cong\<close> and
  \<open>tcp_fields_cong\<close>.)
\<close>

theorem header_spans_from_declared_lengths:
  "ip_version (ip_fields e buf) = unat (buf sizeof_ethhdr) div 16 \<and>
   ip_header_dwords (ip_fields e buf) = unat (buf 14 AND 0x0F) \<and>
   ip_header_bytes (ip_fields e buf) = 4 * unat (buf 14 AND 0x0F) \<and>
   ip_destination (ip_fields e buf) =
     [unat (buf 30), unat (buf 31), unat (buf 32), unat (buf 33)] \<and>
   tcp_offset buf = sizeof_ethhdr + ip_header_bytes (ip_fields e buf) \<and>
   tcp_source_port (tcp_fields e buf) = be16 buf (tcp_offset buf) \<and>
   tcp_header_dwords (tcp_fields e buf) = unat (drop_bit 4 (buf (tcp_offset buf + 12))) \<and>
   tcp_header_bytes (tcp_fields e buf) = 4 * unat (drop_bit 4 (buf (tcp_offset buf + 12))) \<and>
   tcp_checksum (tcp_fields e buf) = be16 buf (tcp_offset buf + 16)"
  by (simp add: ip_fields_eq tcp_fields_eq tcp_offset_eq sizeof_ethhdr_def unat_low_nibble
      unat_drop_bit_u8)

text \<open>
  The amended claim at the frame with \<open>IHL = 6\<close> and \<open>DOFF = 6\<close>.
\<close>

theorem header_spans_from_declared_lengths_witness:
  "ip_header_bytes (ip_fields BigEndian (write_bytes zeroed options_frame)) = 24 \<and>
   tcp_offset (write_bytes zeroed options_frame) = 14 + 24 \<and>
   tcp_source_port (tcp_fields BigEndian (write_bytes zeroed options_frame)) = 80 \<and>
   unat (drop_bit 4 (write_bytes zeroed options_frame 50)) = 6 \<and>
   tcp_header_bytes (tcp_fields BigEndian (write_bytes zeroed options_frame)) = 24"
  using header_spans_from_declared_lengths [of BigEndian "write_bytes zeroed options_frame"]
  by (simp add: decode_defs options_frame_def)

section \<open>What ends the loop\<close>

text \<open>
  Claim C7 distinguishes a fatal failure of the capture source, which ends the loop, from
  an empty result (a momentary failure to read), which skips one pass, and says that no
  error found in a frame ends the loop. The program has one test, \<^verbatim>\<open>msg_len < 0\<close>, and
  never looks at \<^verbatim>\<open>errno\<close>: a read interrupted by a signal (\<^verbatim>\<open>EINTR\<close>, 4) ends
  the loop with \<open>-1\<close> and the frame that follows is never read; and a read of zero bytes
  is not skipped either, the three blocks are printed for it.
\<close>

theorem failed_read_counterexample:
  "main LittleEndian 3 zeroed [Failed 4, Received syn_frame] =
     Returned (- 1)
       \<lparr>buffer = zeroed, stdout = [],
        stderr = [''No data received due to error'' @ [CHR 0x0A]]\<rparr> \<and>
   exit_status (main LittleEndian 3 zeroed [Received []]) = None \<and>
   stderr (final_state (main LittleEndian 3 zeroed [Received []])) = [] \<and>
   stdout (final_state (main LittleEndian 3 zeroed [Received []])) =
     [Ethernet_Header
        \<lparr>eth_destination = [0, 0, 0, 0, 0, 0],
         eth_source = [0, 0, 0, 0, 0, 0], eth_protocol = 0\<rparr>,
      IP_Header
        \<lparr>ip_version = 0, ip_header_dwords = 0, ip_header_bytes = 0,
         ip_type_of_service = 0, ip_total_length = 0,
         ip_identification = 0, ip_ttl = 0, ip_protocol = 0,
         ip_checksum = 0, ip_source = [0, 0, 0, 0],
         ip_destination = [0, 0, 0, 0]\<rparr>,
      TCP_Header
        \<lparr>tcp_source_port = 0, tcp_destination_port = 0,
         tcp_sequence_number = 0, tcp_acknowledge_number = 0,
         tcp_header_dwords = 0, tcp_header_bytes = 0,
         tcp_urgent_flag = 0, tcp_acknowledgement_flag = 0,
         tcp_push_flag = 0, tcp_reset_flag = 0,
         tcp_synchronise_flag = 0, tcp_finish_flag = 0,
         tcp_window = 0, tcp_checksum = 0,
         tcp_urgent_pointer = 0\<rparr>]"
  by (simp add: main_one_frame) (simp add: main_def loop_body_Failed decode_defs)

text \<open>
  Claim C7, amended to what the program does: every failed read, whatever its cause, ends
  the loop: \<open>main\<close> writes one line to standard error and returns \<open>-1\<close>, and the
  events after it are never read. No pass is ever skipped and no content of a frame ends
  the loop or is reported as an error: after any sequence of frames, of any lengths and
  contents, the loop is still running, standard error is as it was, and three blocks
  have been printed for every frame.
\<close>

theorem only_a_failed_read_ends_the_loop:
  "exit_status (capture_loop e s (map Received frames)) = None \<and>
   stderr (final_state (capture_loop e s (map Received frames))) = stderr s \<and>
   length (stdout (final_state (capture_loop e s (map Received frames)))) =
     length (stdout s) + 3 * length frames \<and>
   capture_loop e s (map Received frames @ Failed errno # evs) =
     Returned (- 1)
       ((final_state (capture_loop e s (map Received frames)))
          \<lparr>stderr := stderr s @ [''No data received due to error'' @ [CHR 0x0A]]\<rparr>)"
proof (induction frames arbitrary: s)
  case Nil
  show ?case
    by (simp add: loop_body_Failed)
next
  case (Cons f frames)
  show ?case
    using Cons.IH [of "snd (loop_body e s (Received f))"]
    by (simp only: list.map append_Cons capture_loop_Received pass_stdout_length pass_stderr)
      simp
qed

text \<open>
  The amended claim for a full frame, a read of zero bytes and a 13-byte frame, followed
  or not by a failed read.
\<close>

theorem only_a_failed_read_ends_the_loop_witness:
  "exit_status (main LittleEndian 3 zeroed [Received syn_frame, Received [], Received short_frame])
     = None \<and>
   length (stdout (final_state
     (main LittleEndian 3 zeroed [Received syn_frame, Received [], Received short_frame]))) = 9 \<and>
   exit_status
     (main LittleEndian 3 zeroed
        [Received syn_frame, Received [], Received short_frame, Failed 4, Received syn_frame])
     = Some (- 1) \<and>
   length (stdout (final_state
     (main LittleEndian 3 zeroed
        [Received syn_frame, Received [], Received short_frame, Failed 4, Received syn_frame])))
     = 9"
  using only_a_failed_read_ends_the_loop [of LittleEndian
      "\<lparr>buffer = zeroed, stdout = [], stderr = []\<rparr>" "[syn_frame, [], short_frame]" 4
      "[Received syn_frame]"]
  by (simp add: main_def)

section \<open>Decoding the same bytes twice\<close>

text \<open>
  Claim C8: decoding the same bytes a second time gives the same field contents. The
  three print functions read the buffer and do not write it, so calling them twice in a
  row prints the same three blocks twice; and when the same frame is received twice in
  a row, the second pass leaves the buffer as the first one left it and prints again
  exactly the three blocks the first pass printed.
\<close>

theorem decoding_twice_gives_the_same_blocks:
  "buffer (print_tcp_packet e (print_ip_header e (print_ethernet_header e s))) = buffer s \<and>
   stdout
     (print_tcp_packet e (print_ip_header e (print_ethernet_header e
        (print_tcp_packet e (print_ip_header e (print_ethernet_header e s)))))) =
     stdout s @
       [Ethernet_Header (ethernet_fields e (buffer s)), IP_Header (ip_fields e (buffer s)),
        TCP_Header (tcp_fields e (buffer s))] @
       [Ethernet_Header (ethernet_fields e (buffer s)), IP_Header (ip_fields e (buffer s)),
        TCP_Header (tcp_fields e (buffer s))] \<and>
   buffer (snd (loop_body e (snd (loop_body e s (Received frame))) (Received frame))) =
     buffer (snd (loop_body e s (Received frame))) \<and>
   stdout (snd (loop_body e (snd (loop_body e s (Received frame))) (Received frame))) =
     stdout (snd (loop_body e s (Received frame))) @
       drop (length (stdout s)) (stdout (snd (loop_body e s (Received frame)))) \<and>
   length (drop (length (stdout s)) (stdout (snd (loop_body e s (Received frame))))) = 3"
  by (simp add: prints_buffer prints_stdout loop_body_Received Let_def write_bytes_twice)

text \<open>
  The claim for the SYN frame received twice by \<open>main\<close>.
\<close>

theorem decoding_twice_gives_the_same_blocks_witness:
  "stdout (final_state (main LittleEndian 3 zeroed [Received syn_frame, Received syn_frame])) =
     stdout (final_state (main LittleEndian 3 zeroed [Received syn_frame])) @
     stdout (final_state (main LittleEndian 3 zeroed [Received syn_frame])) \<and>
   length (stdout (final_state (main LittleEndian 3 zeroed [Received syn_frame]))) = 3"
  using decoding_twice_gives_the_same_blocks [of LittleEndian
      "\<lparr>buffer = zeroed, stdout = [], stderr = []\<rparr>" syn_frame]
  by (simp add: main_def loop_body_Received Let_def write_bytes_twice)

section \<open>The decoders run on every frame\<close>

text \<open>
  Claim C9: for every frame received, the IPv4 fields are decoded from offset 14 whatever
  the ether-type and the version nibble are, and the TCP fields from offset
  \<open>14 + IHL * 4\<close> whatever the protocol field is. The pass is the same for every frame:
  it returns nothing and prints the three blocks, whose fields are the bytes at these
  offsets of the buffer (16-bit and 32-bit fields with their value on the wire, except
  the ether-type and the urgent pointer, which are printed as the host reads them).
\<close>

theorem decoders_run_unconditionally:
  "loop_body e s (Received frame) =
     (let buf = write_bytes (buffer s) (take BUF_SIZE frame);
          tcp = 14 + 4 * (unat (buf 14) mod 16)
      in (None,
          s\<lparr>buffer := buf,
            stdout := stdout s @
              [Ethernet_Header
                 \<lparr>eth_destination =
                    [unat (buf 0), unat (buf 1), unat (buf 2), unat (buf 3), unat (buf 4),
                     unat (buf 5)],
                  eth_source =
                    [unat (buf 6), unat (buf 7), unat (buf 8), unat (buf 9), unat (buf 10),
                     unat (buf 11)],
                  eth_protocol = unat (load_u16 e buf 12)\<rparr>,
               IP_Header
                 \<lparr>ip_version = unat (buf 14) div 16,
                  ip_header_dwords = unat (buf 14) mod 16,
                  ip_header_bytes = 4 * (unat (buf 14) mod 16),
                  ip_type_of_service = unat (buf 15),
                  ip_total_length = be16 buf 16,
                  ip_identification = be16 buf 18,
                  ip_ttl = unat (buf 22),
                  ip_protocol = unat (buf 23),
                  ip_checksum = be16 buf 24,
                  ip_source = [unat (buf 26), unat (buf 27), unat (buf 28), unat (buf 29)],
                  ip_destination =
                    [unat (buf 30), unat (buf 31), unat (buf 32), unat (buf 33)]\<rparr>,
               TCP_Header
                 \<lparr>tcp_source_port = be16 buf tcp,
                  tcp_destination_port = be16 buf (tcp + 2),
                  tcp_sequence_number = be32 buf (tcp + 4),
                  tcp_acknowledge_number = be32 buf (tcp + 8),
                  tcp_header_dwords = unat (buf (tcp + 12)) div 16,
                  tcp_header_bytes = 4 * (unat (buf (tcp + 12)) div 16),
                  tcp_urgent_flag = unat (buf (tcp + 13)) div 32 mod 2,
                  tcp_acknowledgement_flag = unat (buf (tcp + 13)) div 16 mod 2,
                  tcp_push_flag = unat (buf (tcp + 13)) div 8 mod 2,
                  tcp_reset_flag = unat (buf (tcp + 13)) div 4 mod 2,
                  tcp_synchronise_flag = unat (buf (tcp + 13)) div 2 mod 2,
                  tcp_finish_flag = unat (buf (tcp + 13)) mod 2,
                  tcp_window = be16 buf (tcp + 14),
                  tcp_checksum = be16 buf (tcp + 16),
                  tcp_urgent_pointer = unat (load_u16 e buf (tcp + 18))\<rparr>]\<rparr>))"
  unfolding loop_body_Received Let_def ethernet_fields_eq ip_fields_eq
  by (simp add: tcp_fields_eq Let_def)

text \<open>
  The claim at the UDP frame on a big-endian host: the ether-type is \<open>0x0800\<close>, the
  protocol is 17, and the TCP block is printed.
\<close>

theorem decoders_run_unconditionally_witness:
  "be16 (write_bytes zeroed udp_frame) 12 = 0x0800 \<and>
   stdout (snd (loop_body BigEndian \<lparr>buffer = zeroed, stdout = [], stderr = []\<rparr>
          (Received udp_frame))) =
     [Ethernet_Header
        \<lparr>eth_destination = [0, 26, 43, 60, 77, 94],
         eth_source = [0, 17, 34, 51, 68, 85], eth_protocol = 2048\<rparr>,
      IP_Header
        \<lparr>ip_version = 4, ip_header_dwords = 15, ip_header_bytes = 60,
         ip_type_of_service = 0, ip_total_length = 60,
         ip_identification = 7238, ip_ttl = 64, ip_protocol = 17,
         ip_checksum = 45542, ip_source = [192, 168, 0, 1],
         ip_destination = [192, 168, 0, 199]\<rparr>,
      TCP_Header
        \<lparr>tcp_source_port = 0, tcp_destination_port = 0,
         tcp_sequence_number = 0, tcp_acknowledge_number = 0,
         tcp_header_dwords = 0, tcp_header_bytes = 0,
         tcp_urgent_flag = 0, tcp_acknowledgement_flag = 0,
         tcp_push_flag = 0, tcp_reset_flag = 0,
         tcp_synchronise_flag = 0, tcp_finish_flag = 0,
         tcp_window = 0, tcp_checksum = 0,
         tcp_urgent_pointer = 0\<rparr>]"
  using decoders_run_unconditionally [of BigEndian
      "\<lparr>buffer = zeroed, stdout = [], stderr = []\<rparr>" udp_frame]
  by (simp add: Let_def BUF_SIZE_def udp_frame_def write_bytes_def zeroed_def be16_def be32_def
      load_u16_def)

section \<open>A read of zero bytes\<close>

text \<open>
  Claim C10: a read that returns 0 bytes is not an error and the pass is not skipped.
  \<^verbatim>\<open>recvfrom\<close> returns 0, the buffer is left as it was, and the three blocks are
  decoded from it and printed; so after a frame, a read of zero bytes prints again the
  three blocks of that frame. A pass returns exactly when the result of the read is
  negative, and the loop goes on exactly as long as every read gives a result that is
  not negative.
\<close>

theorem zero_length_read_is_decoded:
  "fst (recvfrom (Received []) (buffer s)) = 0 \<and>
   loop_body e s (Received []) =
     (None,
      s\<lparr>stdout := stdout s @
          [Ethernet_Header (ethernet_fields e (buffer s)), IP_Header (ip_fields e (buffer s)),
           TCP_Header (tcp_fields e (buffer s))]\<rparr>) \<and>
   stdout (snd (loop_body e (snd (loop_body e s (Received frame))) (Received []))) =
     stdout (snd (loop_body e s (Received frame))) @
       drop (length (stdout s)) (stdout (snd (loop_body e s (Received frame)))) \<and>
   (fst (loop_body e s ev) = None) = (0 \<le> fst (recvfrom ev (buffer s))) \<and>
   (fst (loop_body e s ev) = Some (- 1)) = (fst (recvfrom ev (buffer s)) < 0) \<and>
   (exit_status (capture_loop e s evs) = None) =
     list_all (\<lambda>ev. 0 \<le> fst (recvfrom ev (buffer s))) evs"
proof -
  have "fst (recvfrom (Received []) (buffer s)) = 0"
    by (simp add: recvfrom_def)
  moreover have "loop_body e s' (Received []) =
     (None,
      s'\<lparr>stdout := stdout s' @
          [Ethernet_Header (ethernet_fields e (buffer s')), IP_Header (ip_fields e (buffer s')),
           TCP_Header (tcp_fields e (buffer s'))]\<rparr>)" for s'
    by (simp add: loop_body_Received Let_def write_bytes_Nil)
  moreover have "(fst (loop_body e s ev) = None) = (0 \<le> fst (recvfrom ev (buffer s)))"
    and "(fst (loop_body e s ev) = Some (- 1)) = (fst (recvfrom ev (buffer s)) < 0)"
    by (simp_all add: loop_body_returns not_less)
  ultimately show ?thesis
    by (simp add: capture_loop_blocked [of e s evs "buffer s"])
      (simp add: loop_body_Received Let_def)
qed

text \<open>
  The claim for the SYN frame followed by a read of zero bytes, and then by a failed
  read.
\<close>

theorem zero_length_read_is_decoded_witness:
  "exit_status (main BigEndian 3 zeroed [Received syn_frame, Received []]) = None \<and>
   stdout (final_state (main BigEndian 3 zeroed [Received syn_frame, Received []])) =
     stdout (final_state (main BigEndian 3 zeroed [Received syn_frame])) @
     stdout (final_state (main BigEndian 3 zeroed [Received syn_frame])) \<and>
   tcp_synchronise_flag (tcp_fields BigEndian (write_bytes zeroed syn_frame)) = 1 \<and>
   exit_status (main BigEndian 3 zeroed [Received syn_frame, Received [], Failed 4]) = Some (- 1)"
  using zero_length_read_is_decoded [of "\<lparr>buffer = zeroed, stdout = [], stderr = []\<rparr>"
      BigEndian syn_frame "Failed 4" "[Received syn_frame, Received []]"]
  by (simp add: main_def loop_body_Received loop_body_Failed Let_def write_bytes_Nil
      take_syn_frame)
    (simp add: decode_defs syn_frame_def)

end
